theory Spec2Isabelle
  imports Complex_Main
begin

section \<open>JavaScript values used by the sources\<close>

text \<open>
  A JavaScript string is modelled as a \<^typ>\<open>string\<close> (code units below 256). A
  variable that holds a string, \<^verbatim>\<open>null\<close> or \<^verbatim>\<open>undefined\<close> is a
  \<open>jsval\<close>. Console output is not part of the model.
\<close>

datatype jsval = Undefined | Null | Str string

text \<open>The test \<^verbatim>\<open>!!v\<close>: false for the two absent values and for the empty string.\<close>

fun truthy :: "jsval \<Rightarrow> bool" where
  "truthy Undefined = False"
| "truthy Null = False"
| "truthy (Str s) = (s \<noteq> [])"

text \<open>The conversion to a string that \<^verbatim>\<open>localStorage.setItem\<close> applies to its value.\<close>

fun to_string :: "jsval \<Rightarrow> string" where
  "to_string Undefined = ''undefined''"
| "to_string Null = ''null''"
| "to_string (Str s) = s"

text \<open>\<^verbatim>\<open>a || b\<close> where \<open>a\<close> is a string or absent and \<open>b\<close> a string.\<close>

definition or_else :: "string option \<Rightarrow> string \<Rightarrow> string" where
  "or_else v d = (case v of None \<Rightarrow> d | Some s \<Rightarrow> if s = [] then d else s)"

text \<open>
  \<^verbatim>\<open>String.prototype.toLowerCase\<close> on code units below 256: the letters A to Z and
  the accented capitals of Latin-1 (192 to 222 without the multiplication sign 215) are
  replaced by their small letters, 32 places further.
\<close>

definition capitals :: string where
  "capitals = ''ABCDEFGHIJKLMNOPQRSTUVWXYZ'' @
     [CHR 0xC0, CHR 0xC1, CHR 0xC2, CHR 0xC3, CHR 0xC4, CHR 0xC5, CHR 0xC6, CHR 0xC7,
      CHR 0xC8, CHR 0xC9, CHR 0xCA, CHR 0xCB, CHR 0xCC, CHR 0xCD, CHR 0xCE, CHR 0xCF,
      CHR 0xD0, CHR 0xD1, CHR 0xD2, CHR 0xD3, CHR 0xD4, CHR 0xD5, CHR 0xD6,
      CHR 0xD8, CHR 0xD9, CHR 0xDA, CHR 0xDB, CHR 0xDC, CHR 0xDD, CHR 0xDE]"

definition smalls :: string where
  "smalls = ''abcdefghijklmnopqrstuvwxyz'' @
     [CHR 0xE0, CHR 0xE1, CHR 0xE2, CHR 0xE3, CHR 0xE4, CHR 0xE5, CHR 0xE6, CHR 0xE7,
      CHR 0xE8, CHR 0xE9, CHR 0xEA, CHR 0xEB, CHR 0xEC, CHR 0xED, CHR 0xEE, CHR 0xEF,
      CHR 0xF0, CHR 0xF1, CHR 0xF2, CHR 0xF3, CHR 0xF4, CHR 0xF5, CHR 0xF6,
      CHR 0xF8, CHR 0xF9, CHR 0xFA, CHR 0xFB, CHR 0xFC, CHR 0xFD, CHR 0xFE]"

definition lower_char :: "char \<Rightarrow> char" where
  "lower_char c = (case map_of (zip capitals smalls) c of None \<Rightarrow> c | Some l \<Rightarrow> l)"

definition toLowerCase :: "string \<Rightarrow> string" where
  "toLowerCase s = map lower_char s"

text \<open>Decimal rendering of an integer, as a template literal renders \<^verbatim>\<open>Date.now()\<close>.\<close>

definition digit :: "nat \<Rightarrow> char" where
  "digit n = ''0123456789'' ! n"

function dec :: "nat \<Rightarrow> string" where
  "dec n = (if n < 10 then [digit n] else dec (n div 10) @ [digit (n mod 10)])"
  by pat_completeness auto
termination
  by (relation "measure (\<lambda>n. n)") auto

declare dec.simps [simp del]

definition show_int :: "int \<Rightarrow> string" where
  "show_int i = (if i < 0 then CHR ''-'' # dec (nat (- i)) else dec (nat i))"

subsection \<open>Completions\<close>

text \<open>A call either returns normally or throws; the state it leaves is returned beside it.\<close>

datatype exn = TypeError | SyntaxError | InvalidCharacterError | ModuleError

datatype 'a completion = Normal 'a | Thrown exn

text \<open>Sequencing of two statements: the second runs only if the first returned.\<close>

definition seq :: "unit completion \<times> 's \<Rightarrow> ('s \<Rightarrow> 'a completion \<times> 's) \<Rightarrow> 'a completion \<times> 's" where
  "seq r f = (case fst r of Thrown e \<Rightarrow> (Thrown e, snd r) | Normal u \<Rightarrow> f (snd r))"

text \<open>\<^verbatim>\<open>try { ... } catch (err) { console.warn(err); }\<close>: the effects stay, the exception goes.\<close>

definition catch_warn :: "unit completion \<times> 's \<Rightarrow> unit completion \<times> 's" where
  "catch_warn r = (Normal (), snd r)"

subsection \<open>config.js\<close>

definition ROLES_OPERATOR :: string where "ROLES_OPERATOR = ''operator''"
definition ROLES_SUPERVISOR :: string where "ROLES_SUPERVISOR = ''supervisor''"
definition THEMES_OPERATOR :: string where "THEMES_OPERATOR = ''operator''"
definition THEMES_SUPERVISOR :: string where "THEMES_SUPERVISOR = ''supervisor''"

section \<open>The browser\<close>

subsection \<open>The document\<close>

text \<open>
  The markup of the hosting page is not among the sources, so the document is a parameter:
  the list of its elements in document order. An element carries its id (empty when it
  has none), its class list, the attributes and inline styles the sources touch, its text
  and the class name of its first \<^verbatim>\<open><i>\<close> descendant if there is one. An element is
  identified by its position in the list.
\<close>

record element =
  el_id :: string
  el_classes :: "string list"
  el_attrs :: "string \<rightharpoonup> string"
  el_style :: "string \<rightharpoonup> string"
  el_text :: string
  el_icon :: "string option"

text \<open>\<^verbatim>\<open>classList\<close>: \<open>add\<close>, \<open>remove\<close>, \<open>toggle(token, force)\<close> and \<open>contains\<close>.\<close>

definition cl_add :: "string \<Rightarrow> string list \<Rightarrow> string list" where
  "cl_add c cs = (if c \<in> set cs then cs else cs @ [c])"

definition cl_remove :: "string \<Rightarrow> string list \<Rightarrow> string list" where
  "cl_remove c cs = removeAll c cs"

definition cl_toggle :: "string \<Rightarrow> bool \<Rightarrow> string list \<Rightarrow> string list" where
  "cl_toggle c force cs = (if force then cl_add c cs else cl_remove c cs)"

definition has_class :: "string \<Rightarrow> element \<Rightarrow> bool" where
  "has_class c e = (c \<in> set (el_classes e))"

definition add_class :: "string \<Rightarrow> element \<Rightarrow> element" where
  "add_class c e = e\<lparr>el_classes := cl_add c (el_classes e)\<rparr>"

definition remove_class :: "string \<Rightarrow> element \<Rightarrow> element" where
  "remove_class c e = e\<lparr>el_classes := cl_remove c (el_classes e)\<rparr>"

definition toggle_class :: "string \<Rightarrow> bool \<Rightarrow> element \<Rightarrow> element" where
  "toggle_class c force e = e\<lparr>el_classes := cl_toggle c force (el_classes e)\<rparr>"

definition set_style :: "string \<Rightarrow> string \<Rightarrow> element \<Rightarrow> element" where
  "set_style k v e = e\<lparr>el_style := (el_style e)(k \<mapsto> v)\<rparr>"

text \<open>The position of the first element that satisfies a test, as the query methods return it.\<close>

fun first_index :: "('a \<Rightarrow> bool) \<Rightarrow> 'a list \<Rightarrow> nat option" where
  "first_index P [] = None"
| "first_index P (x # xs) = (if P x then Some 0 else map_option Suc (first_index P xs))"

definition getElementById :: "string \<Rightarrow> element list \<Rightarrow> nat option" where
  "getElementById i els = first_index (\<lambda>e. el_id e = i) els"

text \<open>Applies a change to the element at a position.\<close>

definition modify_at :: "nat \<Rightarrow> (element \<Rightarrow> element) \<Rightarrow> element list \<Rightarrow> element list" where
  "modify_at i f els = els[i := f (els ! i)]"

text \<open>Applies a change to every element that a selector matches (\<^verbatim>\<open>querySelectorAll(...).forEach\<close>).\<close>

definition for_all_matching :: "(element \<Rightarrow> bool) \<Rightarrow> (element \<Rightarrow> element) \<Rightarrow> element list \<Rightarrow> element list" where
  "for_all_matching P f els = map (\<lambda>e. if P e then f e else e) els"

subsection \<open>Deferred callbacks and events\<close>

text \<open>
  A callback handed to \<^verbatim>\<open>setTimeout\<close> or \<^verbatim>\<open>requestAnimationFrame\<close> runs after the
  call that scheduled it has returned. The model stops at the return and records what was
  scheduled: hiding a page that was left, the entry of the target page (which is where
  the class \<^verbatim>\<open>active\<close> is added), and the showing and expiry of a notification.
\<close>

datatype callback = HidePage nat | EnterPage nat | ShowNotification nat | ExpireNotification nat

datatype task = AfterMs nat callback | NextFrame callback

datatype event = ThemeChanged string

subsection \<open>The window\<close>

text \<open>
  \<open>localStorage\<close> is a map from keys to strings. \<open>fragment\<close> is the part of the
  location after the hash sign. \<open>stateStore\<close> stands for the imported state store.
\<close>

record browser =
  localStorage :: "string \<rightharpoonup> string"
  fragment :: string
  elements :: "element list"
  body_classes :: "string list"
  root_style :: "string \<rightharpoonup> string"
  dispatched :: "event list"
  timers :: "task list"
  hashchange_listeners :: nat
  stateStore :: "string \<rightharpoonup> string"

text \<open>\<^verbatim>\<open>window.location.hash\<close>: empty for an empty fragment, else the fragment after a hash sign.\<close>

definition get_hash :: "browser \<Rightarrow> string" where
  "get_hash w = (if fragment w = [] then [] else CHR ''#'' # fragment w)"

text \<open>Assigning to \<^verbatim>\<open>window.location.hash\<close> drops one leading hash sign of the value.\<close>

definition set_hash :: "string \<Rightarrow> browser \<Rightarrow> browser" where
  "set_hash v w = w\<lparr>fragment := (case v of [] \<Rightarrow> [] | c # r \<Rightarrow> if c = CHR ''#'' then r else v)\<rparr>"

text \<open>
  The browser fires \<^verbatim>\<open>hashchange\<close> when an assignment has changed the fragment, and
  nothing when the value assigned is the hash the location already has. The event is
  handled once the running call has returned, by the listeners installed by then.
\<close>

definition hashchange_fires :: "browser \<Rightarrow> browser \<Rightarrow> bool" where
  "hashchange_fires before after = (fragment after \<noteq> fragment before)"

definition setItem :: "string \<Rightarrow> string \<Rightarrow> browser \<Rightarrow> browser" where
  "setItem k v w = w\<lparr>localStorage := (localStorage w)(k \<mapsto> v)\<rparr>"

definition dispatchEvent :: "event \<Rightarrow> browser \<Rightarrow> browser" where
  "dispatchEvent ev w = w\<lparr>dispatched := dispatched w @ [ev]\<rparr>"

definition on_elements :: "(element list \<Rightarrow> element list) \<Rightarrow> browser \<Rightarrow> browser" where
  "on_elements f w = w\<lparr>elements := f (elements w)\<rparr>"

text \<open>
  Modelled from the spec: the state store (\<^verbatim>\<open>./state/store.js\<close> is not among the
  sources). It holds named values; \<open>updateState\<close> sets one, \<open>reset\<close> clears them.
\<close>

definition updateState :: "string \<Rightarrow> string \<Rightarrow> browser \<Rightarrow> browser" where
  "updateState k v w = w\<lparr>stateStore := (stateStore w)(k \<mapsto> v)\<rparr>"

definition reset :: "browser \<Rightarrow> browser" where
  "reset w = w\<lparr>stateStore := Map.empty\<rparr>"

text \<open>The user object \<^verbatim>\<open>{ id, username, role, name, permissions }\<close>.\<close>

record user =
  u_id :: string
  u_username :: string
  u_role :: string
  u_name :: string
  u_permissions :: "string list"

text \<open>
  What the platform supplies and the sources only call: \<^verbatim>\<open>JSON.stringify\<close> on a user
  object, \<^verbatim>\<open>Date.prototype.toISOString\<close>, and the parsing of a date string by
  \<^verbatim>\<open>new Date(s).getTime()\<close>, which gives milliseconds or \<^verbatim>\<open>NaN\<close> (\<open>None\<close>).
  The readings of the clock are arguments of the functions that take them.
\<close>

record platform =
  JSON_stringify :: "user \<Rightarrow> string"
  toISOString :: "int \<Rightarrow> string"
  Date_parse :: "string \<Rightarrow> int option"

section \<open>auth.js\<close>

subsection \<open>The session\<close>

text \<open>The fields of \<^verbatim>\<open>AuthSystem\<close> that its methods read and write.\<close>

record auth_system =
  token :: jsval
  user :: "user option"
  currentTheme :: string

text \<open>The entries of \<^verbatim>\<open>DEMO_USERS\<close>, the credentials of the fallback.\<close>

record demo_user =
  d_role :: string
  d_password :: string
  d_id :: string
  d_name :: string
  d_permissions :: "string list"

text \<open>
  \<^verbatim>\<open>this.DEMO_USERS[key]\<close>. A key that only the prototype of the object answers
  (\<^verbatim>\<open>constructor\<close>, \<^verbatim>\<open>toString\<close>, ...) gives a value without a \<^verbatim>\<open>password\<close>
  string, which the comparison in \<open>login\<close> rejects like an absent entry.
\<close>

definition DEMO_USERS :: "string \<Rightarrow> demo_user option" where
  "DEMO_USERS key =
     (if key = ''operador'' then
        Some \<lparr>d_role = ROLES_OPERATOR, d_password = ''op123'', d_id = ''op_1'',
              d_name = ''Operador Demo'',
              d_permissions = [''view_dashboard'', ''view_alerts'']\<rparr>
      else if key = ''supervisor'' then
        Some \<lparr>d_role = ROLES_SUPERVISOR, d_password = ''sup123'', d_id = ''sup_1'',
              d_name = ''Supervisor Demo'',
              d_permissions = [''view_dashboard'', ''view_alerts'', ''manage_users'',
                               ''configure_system'']\<rparr>
      else None)"

text \<open>
  \<^verbatim>\<open>isAuthenticated() { return !!this.token && !!this.user; }\<close>
  A user object is truthy whenever it is not \<^verbatim>\<open>null\<close>.
\<close>

definition isAuthenticated :: "auth_system \<Rightarrow> bool" where
  "isAuthenticated a = (truthy (token a) \<and> user a \<noteq> None)"

text \<open>
  \<open>isTokenExpired\<close>, with the reading of \<^verbatim>\<open>Date.now()\<close> as \<open>currentTime\<close>. A stored
  string that does not parse gives \<^verbatim>\<open>NaN\<close>, and every comparison with it is false.
\<close>

definition isTokenExpired :: "platform \<Rightarrow> int \<Rightarrow> browser \<Rightarrow> bool" where
  "isTokenExpired pf currentTime w =
     (case localStorage w ''iot_last_login'' of
        None \<Rightarrow> True
      | Some lastLogin \<Rightarrow>
          if lastLogin = [] then True
          else (case Date_parse pf lastLogin of
                  None \<Rightarrow> False
                | Some loginTime \<Rightarrow>
                    let hoursSinceLogin = real_of_int (currentTime - loginTime) / (1000 * 60 * 60)
                    in hoursSinceLogin > 24))"

text \<open>\<^verbatim>\<open>hasRole(role) { return this.user?.role === role; }\<close>\<close>

definition hasRole :: "string \<Rightarrow> auth_system \<Rightarrow> bool" where
  "hasRole r a = (case user a of None \<Rightarrow> False | Some u \<Rightarrow> u_role u = r)"

text \<open>\<open>saveAuthData\<close>, with the reading of the clock by \<^verbatim>\<open>new Date()\<close> as \<open>now\<close>.\<close>

definition stringify_user :: "platform \<Rightarrow> user option \<Rightarrow> string" where
  "stringify_user pf v = (case v of None \<Rightarrow> ''null'' | Some u \<Rightarrow> JSON_stringify pf u)"

definition saveAuthData :: "platform \<Rightarrow> int \<Rightarrow> auth_system \<Rightarrow> browser \<Rightarrow> browser" where
  "saveAuthData pf now a w =
     setItem ''iot_last_login'' (toISOString pf now)
       (setItem ''iot_user'' (stringify_user pf (user a))
          (setItem ''iot_token'' (to_string (token a)) w))"

subsection \<open>The interface after a login\<close>

text \<open>A guarded use of an element (\<^verbatim>\<open>if (el) ...\<close>) and an unguarded one, which throws
  a \<^verbatim>\<open>TypeError\<close> when \<^verbatim>\<open>getElementById\<close> gave \<^verbatim>\<open>null\<close>.\<close>

definition if_present :: "string \<Rightarrow> (element \<Rightarrow> element) \<Rightarrow> browser \<Rightarrow> browser" where
  "if_present i f w =
     (case getElementById i (elements w) of
        None \<Rightarrow> w
      | Some n \<Rightarrow> on_elements (modify_at n f) w)"

definition deref :: "string \<Rightarrow> (element \<Rightarrow> element) \<Rightarrow> browser \<Rightarrow> unit completion \<times> browser" where
  "deref i f w =
     (case getElementById i (elements w) of
        None \<Rightarrow> (Thrown TypeError, w)
      | Some n \<Rightarrow> (Normal (), on_elements (modify_at n f) w))"

definition updateToggleIcon :: "auth_system \<Rightarrow> browser \<Rightarrow> browser" where
  "updateToggleIcon a w =
     if_present ''theme-toggle''
       (\<lambda>e. case el_icon e of
               None \<Rightarrow> e
             | Some old \<Rightarrow>
                 e\<lparr>el_icon := Some (if currentTheme a = THEMES_OPERATOR
                                     then ''fas fa-lightbulb'' else ''fas fa-sun'')\<rparr>) w"

definition updateAuthenticatedUI :: "auth_system \<Rightarrow> browser \<Rightarrow> unit completion \<times> browser" where
  "updateAuthenticatedUI a w =
     (case user a of
        None \<Rightarrow> (Normal (), w)
      | Some u \<Rightarrow>
          let isSupervisor = hasRole ROLES_SUPERVISOR a;
              w1 = on_elements (for_all_matching (has_class ''supervisor-only'')
                                  (toggle_class ''hidden'' (\<not> isSupervisor))) w;
              w2 = if_present ''current-username''
                     (\<lambda>e. e\<lparr>el_text := or_else (Some (u_name u)) (u_username u)\<rparr>) w1;
              w3 = if_present ''current-role''
                     (\<lambda>e. e\<lparr>el_text := (if isSupervisor then ''Supervisor'' else ''Operador'')\<rparr>) w2;
              w4 = (case getElementById ''theme-toggle'' (elements w3) of
                      None \<Rightarrow> w3
                    | Some n \<Rightarrow>
                        updateToggleIcon a
                          (on_elements (modify_at n (toggle_class ''hidden'' (\<not> isSupervisor))) w3))
          in seq (deref ''app-header'' (remove_class ''hidden'') w4)
               (\<lambda>w5. seq (deref ''app-footer'' (remove_class ''hidden'') w5)
                  (deref ''login-page'' (add_class ''hidden''))))"

subsection \<open>Notifications\<close>

text \<open>The table of icons with its default. A type that names an inherited property of
  the table (\<^verbatim>\<open>constructor\<close>, ...) is outside the model; no call site passes one.\<close>

definition getNotificationIcon :: "string \<Rightarrow> string" where
  "getNotificationIcon type =
     (if type = ''success'' then ''check-circle''
      else if type = ''error'' then ''exclamation-circle''
      else if type = ''warning'' then ''exclamation-triangle''
      else ''info-circle'')"

text \<open>
  \<open>showNotification\<close> appends a new element to the body and schedules its showing after
  10 ms and its expiry after 5 s; the listener of its close button is not modelled. At every call site the type is one of the four literal
  severities, so the class name splits into the two classes below. The class of the
  notification is \<^verbatim>\<open>auth-notification\<close> in auth.js and \<^verbatim>\<open>global-notification\<close> in
  app.js; the methods are otherwise alike.
\<close>

definition showNotification :: "string \<Rightarrow> string \<Rightarrow> string \<Rightarrow> browser \<Rightarrow> browser" where
  "showNotification cls message type w =
     (let n = length (elements w);
          notification = \<lparr>el_id = [], el_classes = [cls, ''notification-'' @ type],
                          el_attrs = Map.empty, el_style = Map.empty, el_text = message,
                          el_icon = Some (''fas fa-'' @ getNotificationIcon type)\<rparr>
      in w\<lparr>elements := elements w @ [notification],
           timers := timers w @ [AfterMs 10 (ShowNotification n),
                                 AfterMs 5000 (ExpireNotification n)]\<rparr>)"

subsection \<open>Themes\<close>

definition css_variables :: "(string \<times> string) list" where
  "css_variables =
     [(''--bg-color'', ''bg''), (''--panel-color'', ''panel''), (''--border-color'', ''border''),
      (''--text-color'', ''text''), (''--text-secondary-color'', ''text-secondary''),
      (''--accent-color'', ''accent''), (''--danger-color'', ''danger''),
      (''--warning-color'', ''warning''), (''--success-color'', ''success''),
      (''--info-color'', ''info'')]"

definition updateCSSVariables :: "auth_system \<Rightarrow> browser \<Rightarrow> browser" where
  "updateCSSVariables a w =
     (let theme = (if currentTheme a = THEMES_SUPERVISOR then ''supervisor'' else ''operator'')
      in w\<lparr>root_style :=
             fold (\<lambda>(key, part) st. st(key \<mapsto> ''var(--'' @ theme @ ''-'' @ part @ '')''))
               css_variables (root_style w)\<rparr>)"

text \<open>\<^verbatim>\<open>classList.add\<close> throws on a token that contains ASCII white space.\<close>

definition is_space :: "char \<Rightarrow> bool" where
  "is_space c = (c \<in> set [CHR 0x09, CHR 0x0A, CHR 0x0C, CHR 0x0D, CHR 0x20])"

definition applyTheme :: "auth_system \<Rightarrow> browser \<Rightarrow> unit completion \<times> browser" where
  "applyTheme a w =
     (let w1 = w\<lparr>body_classes :=
                  cl_remove ''supervisor-theme'' (cl_remove ''operator-theme'' (body_classes w))\<rparr>;
          cls = currentTheme a @ ''-theme''
      in if list_ex is_space cls then (Thrown InvalidCharacterError, w1)
         else (Normal (),
               updateCSSVariables a (w1\<lparr>body_classes := cl_add cls (body_classes w1)\<rparr>)))"

text \<open>\<open>toggleTheme\<close>: only a supervisor changes the theme.\<close>

definition toggleTheme :: "auth_system \<Rightarrow> browser \<Rightarrow> unit completion \<times> auth_system \<times> browser" where
  "toggleTheme a w =
     (if user a = None \<or> \<not> hasRole ROLES_SUPERVISOR a then
        (Normal (), a,
         showNotification ''auth-notification'' ''Solo supervisores pueden cambiar el tema''
           ''warning'' w)
      else
        let newTheme = (if currentTheme a = THEMES_OPERATOR then THEMES_SUPERVISOR
                        else THEMES_OPERATOR);
            a1 = a\<lparr>currentTheme := newTheme\<rparr>;
            w1 = setItem ''iot_theme'' newTheme w
        in (case applyTheme a1 w1 of
              (Thrown e, w2) \<Rightarrow> (Thrown e, a1, w2)
            | (Normal u, w2) \<Rightarrow>
                (Normal (), a1,
                 dispatchEvent (ThemeChanged newTheme) (updateToggleIcon a1 w2))))"

subsection \<open>Login\<close>

text \<open>
  The outcome of the request to the backend: \<^verbatim>\<open>fetch\<close> rejects (no connection, or the
  abort after 10 s), or a response arrives with a status and a body. The body is \<open>None\<close>
  when \<^verbatim>\<open>response.json()\<close> rejects. The fields of the payload are typed as the comment
  in the source describes it, \<^verbatim>\<open>{ access_token, user: { id, username, role } }\<close>; the
  token, the user, its name and its permissions may be missing.
\<close>

record remote_user =
  r_id :: string
  r_username :: string
  r_role :: string
  r_name :: "string option"
  r_permissions :: "string list option"

record payload =
  access_token :: jsval
  p_user :: "remote_user option"

datatype remote = NetworkError | TimedOut | Responded nat "payload option"

text \<open>\<^verbatim>\<open>response.ok\<close>: the status is in the range 200 to 299.\<close>

definition response_ok :: "nat \<Rightarrow> bool" where
  "response_ok status = (200 \<le> status \<and> status \<le> 299)"

record login_result =
  success :: bool
  error :: "string option"

text \<open>
  The \<^verbatim>\<open>try\<close> block of \<open>login\<close>. The flag says whether it returned
  \<^verbatim>\<open>{ success: true }\<close>; otherwise control reaches the fallback, either past the
  \<^verbatim>\<open>else\<close> branch or through the \<^verbatim>\<open>catch\<close>, which keeps what was assigned
  before the exception.
\<close>

definition try_backend ::
  "platform \<Rightarrow> remote \<Rightarrow> int \<Rightarrow> string \<Rightarrow> auth_system \<Rightarrow> browser \<Rightarrow> bool \<times> auth_system \<times> browser" where
  "try_backend pf r now username a w =
     (case r of
        NetworkError \<Rightarrow> (False, a, w)
      | TimedOut \<Rightarrow> (False, a, w)
      | Responded status body \<Rightarrow>
          if response_ok status then
            (case body of
               None \<Rightarrow> (False, a, w)
             | Some data \<Rightarrow>
                 let a1 = a\<lparr>token := access_token data\<rparr>
                 in (case p_user data of
                       None \<Rightarrow> (False, a1, w)
                     | Some ru \<Rightarrow>
                         let a2 = a1\<lparr>user := Some \<lparr>u_id = r_id ru, u_username = r_username ru,
                                                   u_role = r_role ru,
                                                   u_name = or_else (r_name ru) username,
                                                   u_permissions =
                                                     (case r_permissions ru of
                                                        None \<Rightarrow> [] | Some ps \<Rightarrow> ps)\<rparr>\<rparr>;
                             w1 = saveAuthData pf now a2 w
                         in (case updateAuthenticatedUI a2 w1 of
                               (Thrown e, w2) \<Rightarrow> (False, a2, w2)
                             | (Normal u, w2) \<Rightarrow>
                                 (True, a2, updateState ''systemStatus'' ''connected'' w2))))
          else (False, a, w))"

text \<open>The message of a failed login, \<^verbatim>\<open>Credenciales inv\<close>(a acute)\<^verbatim>\<open>lidas o backend
  fuera de l\<close>(i acute)\<^verbatim>\<open>nea\<close>.\<close>

definition login_failure_message :: string where
  "login_failure_message =
     ''Credenciales inv'' @ [CHR 0xE1] @ ''lidas o backend fuera de l'' @ [CHR 0xED] @ ''nea''"

text \<open>
  \<open>login\<close>. \<open>now\<close> is the reading of the clock once the backend has answered or
  failed; the fallback reads the clock twice without an \<^verbatim>\<open>await\<close> in between.
\<close>

definition login ::
  "platform \<Rightarrow> remote \<Rightarrow> int \<Rightarrow> string \<Rightarrow> string \<Rightarrow> auth_system \<Rightarrow> browser
     \<Rightarrow> login_result completion \<times> auth_system \<times> browser" where
  "login pf r now username password a w =
     (case try_backend pf r now username a w of
        (True, a1, w1) \<Rightarrow> (Normal \<lparr>success = True, error = None\<rparr>, a1, w1)
      | (False, a1, w1) \<Rightarrow>
          (case DEMO_USERS (toLowerCase username) of
             None \<Rightarrow> (Normal \<lparr>success = False, error = Some login_failure_message\<rparr>, a1, w1)
           | Some demoUser \<Rightarrow>
               if d_password demoUser = password then
                 let a2 = a1\<lparr>user := Some \<lparr>u_id = d_id demoUser, u_username = username,
                                           u_role = d_role demoUser, u_name = d_name demoUser,
                                           u_permissions = d_permissions demoUser\<rparr>,
                              token := Str (''DEMO_TOKEN_'' @ username @ ''_'' @ show_int now)\<rparr>;
                     w2 = saveAuthData pf now a2 w1
                 in (case updateAuthenticatedUI a2 w2 of
                       (Thrown e, w3) \<Rightarrow> (Thrown e, a2, w3)
                     | (Normal u, w3) \<Rightarrow>
                         (Normal \<lparr>success = True, error = None\<rparr>, a2,
                          updateState ''systemStatus'' ''connected'' w3))
               else (Normal \<lparr>success = False, error = Some login_failure_message\<rparr>, a1, w1)))"

section \<open>app.js\<close>

text \<open>
  An \<^verbatim>\<open>async\<close> method is modelled as running to its end: what follows an
  \<^verbatim>\<open>await\<close> is taken to run before any other event is handled, and a rejected
  promise is an exception at the \<^verbatim>\<open>await\<close>.
\<close>

subsection \<open>Feature modules\<close>

text \<open>
  The modules (dashboard controller, alert system, theme manager, WebSocket service) are
  imported objects whose code is not among the sources. The application only tests
  whether a method exists and calls it, so a module object says, for each method the
  application knows, whether it is absent, returns or throws, and logs the calls it
  receives. Objects live in a store and are referred to by address, since the dashboard
  controller and the WebSocket service are reachable both through a field of the
  application and through the registry.
\<close>

datatype 'a behaviour = Absent | Returns 'a | Throws

record module_obj =
  m_disconnect :: "unit behaviour"
  m_initialize :: "unit behaviour"
  m_isReady :: "bool behaviour"
  m_show :: "unit behaviour"
  m_destroy :: "unit behaviour"
  m_renderHistory :: "unit behaviour"
  m_calls :: "string list"

text \<open>
  The fields of \<^verbatim>\<open>IndustrialMonitorApp\<close> that the methods below read and write.
  \<open>modules\<close> is the \<^verbatim>\<open>Map\<close> in insertion order; a registered value may be
  \<^verbatim>\<open>undefined\<close> (\<open>None\<close>).
\<close>

record app =
  wsService :: "nat option"
  dashboardController :: "nat option"
  app_user :: "user option"
  modules :: "(string \<times> nat option) list"
  objs :: "nat \<Rightarrow> module_obj"

type_synonym state = "app \<times> browser"

text \<open>A method call \<^verbatim>\<open>obj.name()\<close>: logged by the object, then it returns or throws.\<close>

definition invoke :: "nat \<Rightarrow> string \<Rightarrow> (module_obj \<Rightarrow> 'a behaviour) \<Rightarrow> state \<Rightarrow> 'a completion \<times> state" where
  "invoke a name sel s =
     (let p = fst s;
          logged = (p\<lparr>objs := (objs p)(a := (objs p a)\<lparr>m_calls := m_calls (objs p a) @ [name]\<rparr>)\<rparr>,
                    snd s)
      in case sel (objs p a) of
           Absent \<Rightarrow> (Thrown TypeError, s)
         | Returns v \<Rightarrow> (Normal v, logged)
         | Throws \<Rightarrow> (Thrown ModuleError, logged))"

text \<open>\<^verbatim>\<open>if (typeof obj.name === 'function') obj.name();\<close>\<close>

definition invoke_if_function :: "nat \<Rightarrow> string \<Rightarrow> (module_obj \<Rightarrow> unit behaviour) \<Rightarrow> state \<Rightarrow> unit completion \<times> state" where
  "invoke_if_function a name sel s =
     (if sel (objs (fst s) a) \<noteq> Absent then invoke a name sel s else (Normal (), s))"

subsection \<open>Modules of a page\<close>

definition initializeDashboard :: "state \<Rightarrow> unit completion \<times> state" where
  "initializeDashboard s =
     (case dashboardController (fst s) of
        None \<Rightarrow> (Normal (), s)
      | Some dc \<Rightarrow>
          (case (if m_isReady (objs (fst s) dc) = Absent then (Normal False, s)
                 else invoke dc ''isReady'' m_isReady s) of
             (Thrown e, s1) \<Rightarrow> (Thrown e, s1)
           | (Normal ready, s1) \<Rightarrow>
               if \<not> ready then
                 (case seq (invoke_if_function dc ''initialize'' m_initialize s1)
                         (invoke_if_function dc ''show'' m_show) of
                    (Thrown e, s2) \<Rightarrow>
                      (Normal (),
                       (fst s2, showNotification ''global-notification''
                                  ''Error inicializando dashboard'' ''error'' (snd s2)))
                  | (Normal u, s2) \<Rightarrow> (Normal (), s2))
               else invoke_if_function dc ''show'' m_show s1))"

text \<open>\<^verbatim>\<open>this.modules.get('alerts')\<close> and the call of its \<^verbatim>\<open>renderHistory\<close>, if any.\<close>

definition initializeAlertsPage :: "state \<Rightarrow> unit completion \<times> state" where
  "initializeAlertsPage s =
     (case map_of (modules (fst s)) ''alerts'' of
        Some (Some alertSystem) \<Rightarrow> invoke_if_function alertSystem ''renderHistory'' m_renderHistory s
      | _ \<Rightarrow> (Normal (), s))"

definition initializePageModules :: "string \<Rightarrow> state \<Rightarrow> unit completion \<times> state" where
  "initializePageModules pageId s =
     (if pageId = ''dashboard'' then initializeDashboard s
      else if pageId = ''alerts'' then initializeAlertsPage s
      else (Normal (), s))"

subsection \<open>Navigation\<close>

text \<open>
  Step 4 of \<open>navigateTo\<close>, for a target page at position \<open>t\<close>. Every active page loses
  the class \<^verbatim>\<open>active\<close> at once and is hidden 200 ms later; the target is prepared and
  its entry is left to the next animation frame.
\<close>

definition is_active_page :: "element \<Rightarrow> bool" where
  "is_active_page e = (has_class ''page'' e \<and> has_class ''active'' e)"

definition leave_active_pages :: "browser \<Rightarrow> browser" where
  "leave_active_pages w =
     w\<lparr>elements :=
         for_all_matching is_active_page
           (\<lambda>e. remove_class ''active''
                  (set_style ''transition'' ''opacity 0.2s ease-out, visibility 0.2s ease-out'' e))
           (elements w),
       timers := timers w @
         map (\<lambda>i. AfterMs 200 (HidePage i))
           (filter (\<lambda>i. is_active_page (elements w ! i)) [0..<length (elements w)])\<rparr>"

definition prepare_target :: "nat \<Rightarrow> browser \<Rightarrow> browser" where
  "prepare_target t w =
     (on_elements
        (modify_at t (\<lambda>e. set_style ''visibility'' ''hidden''
                            (set_style ''opacity'' ''0'' (set_style ''display'' ''block'' e)))) w)
     \<lparr>timers := timers w @ [NextFrame (EnterPage t)]\<rparr>"

text \<open>
  The selector \<^verbatim>\<open>.nav-item[href="#id"], .nav-item[data-target="id"]\<close>. An identifier
  with a double quote or a line break in it breaks the quoted string of the selector and
  \<^verbatim>\<open>querySelector\<close> throws; one with a backslash is read with CSS escapes, which the
  model does not follow and treats like the broken ones.
\<close>

definition selector_safe :: "string \<Rightarrow> bool" where
  "selector_safe i =
     (\<not> list_ex (\<lambda>c. c \<in> set [CHR 0x22, CHR 0x5C, CHR 0x0A, CHR 0x0C, CHR 0x0D]) i)"

definition highlight_nav :: "string \<Rightarrow> browser \<Rightarrow> unit completion \<times> browser" where
  "highlight_nav targetPageId w =
     (if \<not> selector_safe targetPageId then (Thrown SyntaxError, w)
      else (case first_index
                   (\<lambda>e. has_class ''nav-item'' e \<and>
                        (el_attrs e ''href'' = Some (''#'' @ targetPageId) \<or>
                         el_attrs e ''data-target'' = Some targetPageId))
                   (elements w) of
              None \<Rightarrow> (Normal (), w)
            | Some n \<Rightarrow> (Normal (), on_elements (modify_at n (add_class ''active'')) w)))"

definition transition :: "string \<Rightarrow> nat \<Rightarrow> state \<Rightarrow> unit completion \<times> state" where
  "transition targetPageId t s =
     (let w1 = leave_active_pages (snd s);
          w2 = on_elements (for_all_matching (has_class ''nav-item'') (remove_class ''active'')) w1;
          w3 = prepare_target t w2
      in case highlight_nav targetPageId w3 of
           (Thrown e, w4) \<Rightarrow> (Thrown e, (fst s, w4))
         | (Normal u, w4) \<Rightarrow> initializePageModules targetPageId (fst s, w4))"

text \<open>\<open>navigateTo\<close>: the two guards, the test for the active page, then the transition.\<close>

definition navigateTo :: "string \<Rightarrow> state \<Rightarrow> unit completion \<times> state" where
  "navigateTo targetPageId s =
     (let p = fst s; w = snd s;
          targetPage = getElementById (targetPageId @ ''-page'') (elements w)
      in if targetPageId \<noteq> ''login'' \<and> app_user p = None then
           (Normal (), (p, set_hash ''#login'' w))
         else if (case targetPage of None \<Rightarrow> False
                  | Some t \<Rightarrow> has_class ''supervisor-only'' (elements w ! t)) \<and>
                 (case app_user p of None \<Rightarrow> True | Some u \<Rightarrow> u_role u \<noteq> ROLES_SUPERVISOR) then
           (Normal (), (p, set_hash ''#dashboard'' w))
         else if (case targetPage of None \<Rightarrow> False
                  | Some t \<Rightarrow> has_class ''active'' (elements w ! t)) then
           (Normal (), s)
         else (case targetPage of
                 Some t \<Rightarrow> transition targetPageId t s
               | None \<Rightarrow> (Normal (), (p, set_hash ''#dashboard'' w))))"

subsection \<open>Routing\<close>

text \<open>The listener of \<^verbatim>\<open>hashchange\<close>; an exception of the navigation is logged and dropped.\<close>

definition on_hashchange :: "state \<Rightarrow> state" where
  "on_hashchange s =
     (let hash = drop 1 (get_hash (snd s))
      in if hash \<noteq> [] then snd (navigateTo hash s) else s)"

text \<open>\<open>setupRouting\<close> installs the listener and performs the initial navigation.\<close>

definition setupRouting :: "state \<Rightarrow> state" where
  "setupRouting s =
     (let p = fst s;
          w = (snd s)\<lparr>hashchange_listeners := Suc (hashchange_listeners (snd s))\<rparr>;
          initialHash = (let h = drop 1 (get_hash w) in if h = [] then ''dashboard'' else h)
      in if app_user p \<noteq> None then snd (navigateTo initialHash (p, w))
         else if get_hash w = [] \<or> get_hash w = ''#dashboard'' then (p, set_hash ''#login'' w)
         else (p, w))"

subsection \<open>Teardown\<close>

text \<open>
  The callback of \<^verbatim>\<open>this.modules.forEach\<close>: a module that is defined and has a
  \<^verbatim>\<open>destroy\<close> method is destroyed inside a \<^verbatim>\<open>try\<close>. The statement that destroys
  the dashboard controller has the same shape.
\<close>

definition destroy_module :: "nat option \<Rightarrow> state \<Rightarrow> unit completion \<times> state" where
  "destroy_module v s =
     (case v of
        None \<Rightarrow> (Normal (), s)
      | Some m \<Rightarrow>
          if m_destroy (objs (fst s) m) \<noteq> Absent
          then catch_warn (invoke m ''destroy'' m_destroy s)
          else (Normal (), s))"

text \<open>\<^verbatim>\<open>Map.prototype.forEach\<close>: the callback on each value in insertion order; an
  exception that leaves the callback ends the iteration.\<close>

fun forEach :: "('v \<Rightarrow> 's \<Rightarrow> unit completion \<times> 's) \<Rightarrow> (string \<times> 'v) list \<Rightarrow> 's \<Rightarrow> unit completion \<times> 's" where
  "forEach f [] s = (Normal (), s)"
| "forEach f ((k, v) # ms) s = seq (f v s) (forEach f ms)"

definition cleanup :: "state \<Rightarrow> unit completion \<times> state" where
  "cleanup s =
     seq (case wsService (fst s) of
            None \<Rightarrow> (Normal (), s)
          | Some ws \<Rightarrow>
              if m_disconnect (objs (fst s) ws) \<noteq> Absent
              then catch_warn (invoke ws ''disconnect'' m_disconnect s)
              else (Normal (), s))
       (\<lambda>s1. seq (destroy_module (dashboardController (fst s1)) s1)
          (\<lambda>s2. seq (forEach destroy_module (modules (fst s2)) s2)
             (\<lambda>s3. (Normal (), ((fst s3)\<lparr>modules := []\<rparr>, reset (snd s3))))))"

section \<open>Notions of the specification\<close>

text \<open>The remote attempt fails: the request is rejected (no connection or timeout) or the
  response has a status outside 200..299.\<close>

definition remote_failed :: "remote \<Rightarrow> bool" where
  "remote_failed r =
     (case r of NetworkError \<Rightarrow> True | TimedOut \<Rightarrow> True
      | Responded status body \<Rightarrow> \<not> response_ok status)"

text \<open>The page has the three elements that \<open>updateAuthenticatedUI\<close> uses without a guard.\<close>

definition shell_present :: "browser \<Rightarrow> bool" where
  "shell_present w =
     (getElementById ''app-header'' (elements w) \<noteq> None \<and>
      getElementById ''app-footer'' (elements w) \<noteq> None \<and>
      getElementById ''login-page'' (elements w) \<noteq> None)"

text \<open>The view with an identifier: the element whose id is the identifier followed by
  \<^verbatim>\<open>-page\<close>. It is active, or reserved to supervisors, when it exists and carries
  the class \<^verbatim>\<open>active\<close>, or \<^verbatim>\<open>supervisor-only\<close>.\<close>

definition view_has_class :: "string \<Rightarrow> string \<Rightarrow> browser \<Rightarrow> bool" where
  "view_has_class c targetPageId w =
     (case getElementById (targetPageId @ ''-page'') (elements w) of
        None \<Rightarrow> False
      | Some t \<Rightarrow> has_class c (elements w ! t))"

text \<open>How often \<^verbatim>\<open>destroy()\<close> has been called on the object at an address.\<close>

definition destroy_calls :: "app \<Rightarrow> nat \<Rightarrow> nat" where
  "destroy_calls p m = count_list (m_calls (objs p m)) ''destroy''"

text \<open>The identifiers of the document in order; no method of the sources changes them.\<close>

definition ids :: "browser \<Rightarrow> string list" where
  "ids w = map el_id (elements w)"

text \<open>Between two states of the application only call logs differ, and no object has
  lost a call of \<^verbatim>\<open>destroy\<close>.\<close>

definition logged :: "app \<Rightarrow> app \<Rightarrow> bool" where
  "logged p p' =
     (modules p' = modules p \<and> wsService p' = wsService p \<and>
      dashboardController p' = dashboardController p \<and>
      (\<forall>x. m_destroy (objs p' x) = m_destroy (objs p x) \<and>
           destroy_calls p x \<le> destroy_calls p' x))"

section \<open>Example states\<close>

text \<open>A platform that knows one date, the first instant of 2024.\<close>

definition example_platform :: platform where
  "example_platform =
     \<lparr>JSON_stringify = (\<lambda>u. ''{\"username\":\"'' @ u_username u @ ''\"}''),
      toISOString = (\<lambda>t. if t = 1704067200000 then ''2024-01-01T00:00:00.000Z''
                          else ''1970-01-01T00:00:00.000Z''),
      Date_parse = (\<lambda>s. if s = ''2024-01-01T00:00:00.000Z'' then Some 1704067200000
                         else if s = ''1970-01-01T00:00:00.000Z'' then Some 0 else None)\<rparr>"

definition el :: "string \<Rightarrow> string list \<Rightarrow> element" where
  "el i cs = \<lparr>el_id = i, el_classes = cs, el_attrs = Map.empty, el_style = Map.empty,
             el_text = [], el_icon = None\<rparr>"

text \<open>A page with the login view active, and the same page with the dashboard active.\<close>

definition example_elements :: "element list" where
  "example_elements =
     [el ''app-header'' [''hidden''],
      el ''login-page'' [''page'', ''active''],
      el ''dashboard-page'' [''page''],
      el ''config-page'' [''page'', ''supervisor-only''],
      el ''app-footer'' [''hidden'']]"

definition dashboard_elements :: "element list" where
  "dashboard_elements =
     [el ''app-header'' [],
      el ''login-page'' [''page'', ''hidden''],
      el ''dashboard-page'' [''page'', ''active''],
      el ''config-page'' [''page'', ''supervisor-only''],
      el ''app-footer'' []]"

definition example_browser :: browser where
  "example_browser =
     \<lparr>localStorage = Map.empty, fragment = [], elements = example_elements,
      body_classes = [], root_style = Map.empty, dispatched = [], timers = [],
      hashchange_listeners = 0, stateStore = Map.empty\<rparr>"

definition dashboard_browser :: browser where
  "dashboard_browser = example_browser\<lparr>fragment := ''dashboard'', elements := dashboard_elements\<rparr>"

text \<open>The page with the configuration view active.\<close>

definition config_browser :: browser where
  "config_browser =
     example_browser\<lparr>fragment := ''config'',
                     elements := [el ''app-header'' [],
                                  el ''dashboard-page'' [''page''],
                                  el ''config-page'' [''page'', ''supervisor-only'', ''active''],
                                  el ''app-footer'' []]\<rparr>"

text \<open>A page that lacks the header.\<close>

definition headless_browser :: browser where
  "headless_browser =
     example_browser\<lparr>elements := [el ''login-page'' [''page'', ''active''],
                                   el ''dashboard-page'' [''page''],
                                   el ''app-footer'' [''hidden'']]\<rparr>"

definition operator_user :: user where
  "operator_user =
     \<lparr>u_id = ''op_1'', u_username = ''operador'', u_role = ''operator'',
      u_name = ''Operador Demo'', u_permissions = [''view_dashboard'', ''view_alerts'']\<rparr>"

definition logged_out :: auth_system where
  "logged_out = \<lparr>token = Null, user = None, currentTheme = ''operator''\<rparr>"

text \<open>Three module objects: a WebSocket service, a dashboard controller, and an alert
  system whose \<^verbatim>\<open>destroy\<close> throws. Every other address holds an object without methods.\<close>

definition no_methods :: module_obj where
  "no_methods =
     \<lparr>m_disconnect = Absent, m_initialize = Absent, m_isReady = Absent, m_show = Absent,
      m_destroy = Absent, m_renderHistory = Absent, m_calls = []\<rparr>"

definition example_objs :: "nat \<Rightarrow> module_obj" where
  "example_objs a =
     (if a = 0 then no_methods\<lparr>m_disconnect := Returns ()\<rparr>
      else if a = 1 then no_methods\<lparr>m_initialize := Returns (), m_isReady := Returns False,
                                     m_show := Returns (), m_destroy := Returns ()\<rparr>
      else if a = 2 then no_methods\<lparr>m_renderHistory := Returns (), m_destroy := Throws\<rparr>
      else no_methods)"

definition example_app :: app where
  "example_app =
     \<lparr>wsService = Some 0, dashboardController = Some 1, app_user = None,
      modules = [(''alerts'', Some 2), (''theme'', None), (''websocket'', Some 0),
                 (''dashboard'', Some 1)],
      objs = example_objs\<rparr>"

section \<open>Properties of the session\<close>

text \<open>
  Claim C1, as amended. \<open>isAuthenticated\<close> holds exactly when the token is a string that
  is not empty and the user record is not \<^verbatim>\<open>null\<close>: the test on the token is a test
  for truthiness, so an empty token counts as absent.
\<close>

theorem isAuthenticated_iff:
  "isAuthenticated a \<longleftrightarrow> (\<exists>s. token a = Str s \<and> s \<noteq> []) \<and> user a \<noteq> None"
  by (cases "token a") (simp_all add: isAuthenticated_def)

text \<open>With the empty string as token and a user record, the token and the user are not
  \<^verbatim>\<open>null\<close> and yet the session is not authenticated.\<close>

theorem isAuthenticated_empty_token_counterexample:
  "\<not> (isAuthenticated \<lparr>token = Str [], user = Some operator_user, currentTheme = ''operator''\<rparr>
       \<longleftrightarrow> token \<lparr>token = Str [], user = Some operator_user, currentTheme = ''operator''\<rparr> \<noteq> Null
          \<and> user \<lparr>token = Str [], user = Some operator_user, currentTheme = ''operator''\<rparr> \<noteq> None)"
  by (simp add: isAuthenticated_def)

theorem isAuthenticated_iff_witness:
  "isAuthenticated \<lparr>token = Str ''DEMO_TOKEN_operador_0'', user = Some operator_user,
                    currentTheme = ''operator''\<rparr>
   \<and> \<not> isAuthenticated logged_out"
  using isAuthenticated_iff [of "\<lparr>token = Str ''DEMO_TOKEN_operador_0'', user = Some operator_user,
                                  currentTheme = ''operator''\<rparr>"]
    isAuthenticated_iff [of logged_out]
  by (simp add: logged_out_def)

text \<open>
  Claim C5. \<open>isTokenExpired\<close> is true when no last-login timestamp is stored, and true
  whenever the stored timestamp parses to an instant more than 24 hours (86400000 ms)
  before the current time.
\<close>

theorem isTokenExpired_fail_closed:
  "(localStorage w ''iot_last_login'' = None \<longrightarrow> isTokenExpired pf currentTime w) \<and>
   (localStorage w ''iot_last_login'' = Some lastLogin \<and> Date_parse pf lastLogin = Some loginTime \<and>
    24 * 60 * 60 * 1000 < currentTime - loginTime \<longrightarrow> isTokenExpired pf currentTime w)"
  by (auto simp: isTokenExpired_def Let_def)

theorem isTokenExpired_fail_closed_witness:
  "localStorage example_browser ''iot_last_login'' = None \<and>
   isTokenExpired example_platform 1704067200000 example_browser \<and>
   localStorage (setItem ''iot_last_login'' ''2024-01-01T00:00:00.000Z'' example_browser)
     ''iot_last_login'' = Some ''2024-01-01T00:00:00.000Z'' \<and>
   Date_parse example_platform ''2024-01-01T00:00:00.000Z'' = Some 1704067200000 \<and>
   (24 * 60 * 60 * 1000 :: int) < 1704153600001 - 1704067200000 \<and>
   isTokenExpired example_platform 1704153600001
     (setItem ''iot_last_login'' ''2024-01-01T00:00:00.000Z'' example_browser)"
  using isTokenExpired_fail_closed
      [where w = example_browser and pf = example_platform and currentTime = 1704067200000]
    isTokenExpired_fail_closed
      [where w = "setItem ''iot_last_login'' ''2024-01-01T00:00:00.000Z'' example_browser"
         and pf = example_platform and lastLogin = "''2024-01-01T00:00:00.000Z''"
         and loginTime = 1704067200000 and currentTime = 1704153600001]
  by (simp add: example_browser_def example_platform_def setItem_def)

text \<open>
  Claim C10. When there is no current user, or the current user is not a supervisor,
  \<open>toggleTheme\<close> returns without an exception and leaves the current theme of the
  session and the stored theme as they were.
\<close>

theorem toggleTheme_not_supervisor:
  "user a = None \<or> (\<exists>u. user a = Some u \<and> u_role u \<noteq> ROLES_SUPERVISOR) \<Longrightarrow>
     (case toggleTheme a w of
        (c, a', w') \<Rightarrow>
          c = Normal () \<and> currentTheme a' = currentTheme a \<and>
          localStorage w' ''iot_theme'' = localStorage w ''iot_theme'')"
  by (auto simp: toggleTheme_def showNotification_def hasRole_def Let_def)

theorem toggleTheme_not_supervisor_witness:
  "user \<lparr>token = Str ''t'', user = Some operator_user, currentTheme = ''operator''\<rparr>
     = Some operator_user \<and>
   u_role operator_user \<noteq> ROLES_SUPERVISOR \<and>
   (case toggleTheme \<lparr>token = Str ''t'', user = Some operator_user, currentTheme = ''operator''\<rparr>
           (setItem ''iot_theme'' ''operator'' example_browser) of
      (c, a', w') \<Rightarrow>
        c = Normal () \<and> currentTheme a' = ''operator'' \<and>
        localStorage w' ''iot_theme'' = Some ''operator'')"
  using toggleTheme_not_supervisor
    [of "\<lparr>token = Str ''t'', user = Some operator_user, currentTheme = ''operator''\<rparr>"
        "setItem ''iot_theme'' ''operator'' example_browser"]
  by (simp add: operator_user_def ROLES_SUPERVISOR_def setItem_def split: prod.splits)

section \<open>Properties of login\<close>



lemma el_id_class [simp]:
  "el_id (toggle_class c b e) = el_id e"
  "el_id (add_class c e) = el_id e"
  "el_id (remove_class c e) = el_id e"
  by (simp_all add: toggle_class_def add_class_def remove_class_def)





lemma ids_storage [simp]:
  "ids (setItem k v w) = ids w"
  "ids (updateState k v w) = ids w"
  by (simp_all add: ids_def setItem_def updateState_def)



lemma try_backend_failed:
  "remote_failed r \<Longrightarrow> try_backend pf r now username a w = (False, a, w)"
  by (cases r) (simp_all add: remote_failed_def try_backend_def)



text \<open>Unfolding rules that evaluate the model on the example states.\<close>

lemmas string_defs = toLowerCase_def lower_char_def capitals_def smalls_def show_int_def
  dec.simps digit_def or_else_def

lemmas dom_defs = getElementById_def on_elements_def for_all_matching_def modify_at_def
  has_class_def toggle_class_def add_class_def remove_class_def set_style_def cl_toggle_def
  cl_add_def cl_remove_def if_present_def deref_def seq_def set_hash_def get_hash_def
  view_has_class_def

lemmas example_defs = example_platform_def el_def example_elements_def dashboard_elements_def
  example_browser_def dashboard_browser_def headless_browser_def operator_user_def
  logged_out_def no_methods_def
  example_objs_def example_app_def

lemmas auth_defs = login_def try_backend_def DEMO_USERS_def saveAuthData_def stringify_user_def
  setItem_def updateState_def updateAuthenticatedUI_def updateToggleIcon_def hasRole_def
  isAuthenticated_def remote_failed_def response_ok_def shell_present_def
  ROLES_OPERATOR_def ROLES_SUPERVISOR_def THEMES_OPERATOR_def THEMES_SUPERVISOR_def




text \<open>
  Claim C6, as amended. When the remote attempt fails and the table of local credentials
  has no entry for the lower-cased username with the given password, \<open>login\<close> returns a
  failure whose reason is the message \<^verbatim>\<open>Credenciales inv\<close>(a acute)\<^verbatim>\<open>lidas o backend
  fuera de l\<close>(i acute)\<^verbatim>\<open>nea\<close>; token and user are unchanged, so a session that was not
  authenticated remains so, and nothing is written to the storage.
\<close>

theorem login_failure:
  assumes "remote_failed r"
    and "map_option d_password (DEMO_USERS (toLowerCase username)) \<noteq> Some password"
  shows "login pf r now username password a w =
           (Normal \<lparr>success = False, error = Some login_failure_message\<rparr>, a, w)"
  using assms by (simp add: login_def try_backend_failed split: option.splits)

text \<open>The reason of a failed login is not the English sentence.\<close>

theorem login_failure_reason_counterexample:
  "remote_failed TimedOut \<and>
   map_option d_password (DEMO_USERS (toLowerCase ''operador'')) \<noteq> Some ''wrong'' \<and>
   fst (login example_platform TimedOut 1704067200000 ''operador'' ''wrong'' logged_out
          example_browser)
     \<noteq> Normal \<lparr>success = False, error = Some ''invalid credentials or backend unavailable''\<rparr>"
  by (simp add: string_defs auth_defs login_failure_message_def)

theorem login_failure_witness:
  "remote_failed NetworkError \<and>
   map_option d_password (DEMO_USERS (toLowerCase ''operador'')) \<noteq> Some ''wrong'' \<and>
   login example_platform NetworkError 1704067200000 ''operador'' ''wrong'' logged_out
       example_browser
     = (Normal \<lparr>success = False, error = Some login_failure_message\<rparr>, logged_out,
        example_browser) \<and>
   \<not> isAuthenticated logged_out"
  using login_failure
      [where r = NetworkError and username = "''operador''" and password = "''wrong''"
         and pf = example_platform and now = 1704067200000 and a = logged_out
         and w = example_browser]
  by (simp add: string_defs auth_defs logged_out_def)

section \<open>Properties of navigation\<close>

text \<open>
  Claim C3. The navigation takes the session for unauthenticated when the application has
  no user. For every requested view other than \<^verbatim>\<open>login\<close>, it then sets the location
  to \<^verbatim>\<open>#login\<close> and returns: the document is left as it was, so the requested view
  is not activated, and no method of a module is called.
\<close>

theorem navigateTo_unauthenticated:
  "targetPageId \<noteq> ''login'' \<Longrightarrow> app_user p = None \<Longrightarrow>
     navigateTo targetPageId (p, w) = (Normal (), (p, w\<lparr>fragment := ''login''\<rparr>))"
  by (simp add: navigateTo_def set_hash_def Let_def)

theorem navigateTo_unauthenticated_witness:
  "''reports'' \<noteq> ''login'' \<and> app_user example_app = None \<and>
   navigateTo ''reports'' (example_app, example_browser)
     = (Normal (), (example_app, example_browser\<lparr>fragment := ''login''\<rparr>))"
  using navigateTo_unauthenticated [of "''reports''" example_app example_browser]
  by (simp add: example_app_def)

text \<open>
  Claim C4. For a session with a user whose role is not supervisor, requesting a view
  that is reserved to supervisors sets the location to \<^verbatim>\<open>#dashboard\<close> and returns;
  the requested view is not activated.
\<close>

theorem navigateTo_supervisor_only:
  "app_user p = Some u \<Longrightarrow> u_role u \<noteq> ROLES_SUPERVISOR \<Longrightarrow>
   view_has_class ''supervisor-only'' targetPageId w \<Longrightarrow>
     navigateTo targetPageId (p, w) = (Normal (), (p, w\<lparr>fragment := ''dashboard''\<rparr>))"
  by (simp add: navigateTo_def view_has_class_def set_hash_def Let_def split: option.splits)

theorem navigateTo_supervisor_only_witness:
  "app_user (example_app\<lparr>app_user := Some operator_user\<rparr>) = Some operator_user \<and>
   u_role operator_user \<noteq> ROLES_SUPERVISOR \<and>
   view_has_class ''supervisor-only'' ''config'' dashboard_browser \<and>
   navigateTo ''config'' (example_app\<lparr>app_user := Some operator_user\<rparr>, dashboard_browser)
     = (Normal (), (example_app\<lparr>app_user := Some operator_user\<rparr>,
                    dashboard_browser\<lparr>fragment := ''dashboard''\<rparr>))"
  using navigateTo_supervisor_only
      [of "example_app\<lparr>app_user := Some operator_user\<rparr>" operator_user "''config''"
          dashboard_browser]
  by (simp add: dom_defs example_defs ROLES_SUPERVISOR_def)

text \<open>
  Claim C8, as amended. A navigation request whose target view is already active skips
  the transition and calls no method of a module: it returns with the application, the
  document and the scheduled callbacks as they were. When there is no user and the target
  is not \<^verbatim>\<open>login\<close>, the location becomes \<^verbatim>\<open>#login\<close>; otherwise, when the target
  is reserved to supervisors and the user is not one, the location becomes
  \<^verbatim>\<open>#dashboard\<close>; otherwise the request is a no-op and the whole state is as before.
\<close>

theorem navigateTo_active_noop:
  "view_has_class ''active'' targetPageId w \<Longrightarrow>
     navigateTo targetPageId (p, w) =
       (Normal (),
        (p, if targetPageId \<noteq> ''login'' \<and> app_user p = None then w\<lparr>fragment := ''login''\<rparr>
            else if view_has_class ''supervisor-only'' targetPageId w \<and>
                    map_option u_role (app_user p) \<noteq> Some ROLES_SUPERVISOR
                 then w\<lparr>fragment := ''dashboard''\<rparr>
                 else w))"
  by (auto simp: navigateTo_def view_has_class_def set_hash_def Let_def split: option.splits)

text \<open>Without a user, a request for the active dashboard changes the location, so the
  state is not as before.\<close>

theorem navigateTo_active_counterexample:
  "view_has_class ''active'' ''dashboard'' dashboard_browser \<and>
   snd (navigateTo ''dashboard'' (example_app, dashboard_browser))
     \<noteq> (example_app, dashboard_browser)"
  by (simp add: navigateTo_def Let_def dom_defs example_defs)

theorem navigateTo_active_noop_witness:
  "view_has_class ''active'' ''dashboard'' dashboard_browser \<and>
   navigateTo ''dashboard'' (example_app\<lparr>app_user := Some operator_user\<rparr>, dashboard_browser)
     = (Normal (), (example_app\<lparr>app_user := Some operator_user\<rparr>, dashboard_browser)) \<and>
   navigateTo ''dashboard'' (example_app, dashboard_browser)
     = (Normal (), (example_app, dashboard_browser\<lparr>fragment := ''login''\<rparr>)) \<and>
   view_has_class ''active'' ''config'' config_browser \<and>
   navigateTo ''config'' (example_app\<lparr>app_user := Some operator_user\<rparr>, config_browser)
     = (Normal (), (example_app\<lparr>app_user := Some operator_user\<rparr>,
                    config_browser\<lparr>fragment := ''dashboard''\<rparr>))"
  using navigateTo_active_noop
      [of "''dashboard''" dashboard_browser "example_app\<lparr>app_user := Some operator_user\<rparr>"]
    navigateTo_active_noop [of "''dashboard''" dashboard_browser example_app]
    navigateTo_active_noop
      [of "''config''" config_browser "example_app\<lparr>app_user := Some operator_user\<rparr>"]
  by (auto simp: dom_defs example_defs config_browser_def ROLES_SUPERVISOR_def)

text \<open>
  Claim C7, as amended. \<open>setupRouting\<close> installs the listener. With a user, it then
  navigates to the current fragment, or to \<^verbatim>\<open>dashboard\<close> when the fragment is empty.
  Without a user, the navigation is forced to the login view when the fragment is empty
  or \<^verbatim>\<open>dashboard\<close>: the location becomes \<^verbatim>\<open>#login\<close>, which fires
  \<^verbatim>\<open>hashchange\<close>, and the listener navigates to \<^verbatim>\<open>login\<close>. Any other fragment
  is left as it is, and no event is fired for it.
\<close>

theorem setupRouting_initial:
  "(app_user p \<noteq> None \<longrightarrow>
      setupRouting (p, w) =
        snd (navigateTo (if fragment w = [] then ''dashboard'' else fragment w)
               (p, w\<lparr>hashchange_listeners := Suc (hashchange_listeners w)\<rparr>))) \<and>
   (app_user p = None \<and> (fragment w = [] \<or> fragment w = ''dashboard'') \<longrightarrow>
      setupRouting (p, w) =
        (p, w\<lparr>hashchange_listeners := Suc (hashchange_listeners w), fragment := ''login''\<rparr>) \<and>
      hashchange_fires w (snd (setupRouting (p, w))) \<and>
      on_hashchange (setupRouting (p, w)) = snd (navigateTo ''login'' (setupRouting (p, w)))) \<and>
   (app_user p = None \<and> fragment w \<noteq> [] \<and> fragment w \<noteq> ''dashboard'' \<longrightarrow>
      setupRouting (p, w) = (p, w\<lparr>hashchange_listeners := Suc (hashchange_listeners w)\<rparr>) \<and>
      \<not> hashchange_fires w (snd (setupRouting (p, w))))"
  by (auto simp: setupRouting_def on_hashchange_def hashchange_fires_def get_hash_def
        set_hash_def Let_def)

text \<open>Without a user and with the fragment \<^verbatim>\<open>reports\<close>, the location is not forced to
  the login view and no event is fired.\<close>

theorem setupRouting_counterexample:
  "app_user example_app = None \<and>
   fragment (snd (setupRouting (example_app, example_browser\<lparr>fragment := ''reports''\<rparr>)))
     \<noteq> ''login'' \<and>
   \<not> hashchange_fires (example_browser\<lparr>fragment := ''reports''\<rparr>)
       (snd (setupRouting (example_app, example_browser\<lparr>fragment := ''reports''\<rparr>)))"
  by (simp add: setupRouting_def hashchange_fires_def get_hash_def set_hash_def Let_def
        example_app_def)

theorem setupRouting_initial_witness:
  "app_user (example_app\<lparr>app_user := Some operator_user\<rparr>) \<noteq> None \<and>
   setupRouting (example_app\<lparr>app_user := Some operator_user\<rparr>, example_browser)
     = snd (navigateTo ''dashboard''
              (example_app\<lparr>app_user := Some operator_user\<rparr>,
               example_browser\<lparr>hashchange_listeners := 1\<rparr>)) \<and>
   app_user example_app = None \<and> fragment example_browser = [] \<and>
   setupRouting (example_app, example_browser)
     = (example_app, example_browser\<lparr>hashchange_listeners := 1, fragment := ''login''\<rparr>) \<and>
   hashchange_fires example_browser (snd (setupRouting (example_app, example_browser))) \<and>
   on_hashchange (setupRouting (example_app, example_browser))
     = snd (navigateTo ''login'' (setupRouting (example_app, example_browser))) \<and>
   fragment (example_browser\<lparr>fragment := ''reports''\<rparr>) = ''reports'' \<and>
   setupRouting (example_app, example_browser\<lparr>fragment := ''reports''\<rparr>)
     = (example_app, example_browser\<lparr>fragment := ''reports'', hashchange_listeners := 1\<rparr>) \<and>
   \<not> hashchange_fires (example_browser\<lparr>fragment := ''reports''\<rparr>)
       (snd (setupRouting (example_app, example_browser\<lparr>fragment := ''reports''\<rparr>)))"
  using setupRouting_initial [of "example_app\<lparr>app_user := Some operator_user\<rparr>" example_browser]
    setupRouting_initial [of example_app example_browser]
    setupRouting_initial [of example_app "example_browser\<lparr>fragment := ''reports''\<rparr>"]
  by (simp add: example_app_def example_browser_def hashchange_fires_def on_hashchange_def
        get_hash_def Let_def)

section \<open>Properties of the teardown\<close>

lemma logged_refl: "logged p p"
  by (simp add: logged_def)

lemma logged_trans: "logged p q \<Longrightarrow> logged q r \<Longrightarrow> logged p r"
  by (auto simp: logged_def intro: order_trans)

lemma invoke_logged: "logged (fst s) (fst (snd (invoke a name sel s)))"
  by (auto simp: invoke_def logged_def destroy_calls_def Let_def split: behaviour.splits)

lemma invoke_destroy_grows:
  "m_destroy (objs (fst s) m) \<noteq> Absent \<Longrightarrow>
     destroy_calls (fst s) m < destroy_calls (fst (snd (invoke m ''destroy'' m_destroy s))) m"
  by (auto simp: invoke_def destroy_calls_def Let_def split: behaviour.splits)

lemma destroy_module_normal: "fst (destroy_module v s) = Normal ()"
  by (simp add: destroy_module_def catch_warn_def split: option.splits)

lemma destroy_module_logged: "logged (fst s) (fst (snd (destroy_module v s)))"
  by (simp add: destroy_module_def catch_warn_def invoke_logged logged_refl split: option.splits)

lemma destroy_module_grows:
  "m_destroy (objs (fst s) m) \<noteq> Absent \<Longrightarrow>
     destroy_calls (fst s) m < destroy_calls (fst (snd (destroy_module (Some m) s))) m"
  by (simp add: destroy_module_def catch_warn_def invoke_destroy_grows)

lemma seq_normal: "fst r = Normal () \<Longrightarrow> seq r f = f (snd r)"
  by (simp add: seq_def)

text \<open>The iteration over the registry never throws, whatever the modules do.\<close>

lemma forEach_destroy_normal: "fst (forEach destroy_module ms s) = Normal ()"
proof (induction ms arbitrary: s)
  case Nil
  show ?case by simp
next
  case (Cons kv ms)
  then show ?case by (cases kv) (simp add: seq_normal destroy_module_normal)
qed

lemma forEach_destroy_logged: "logged (fst s) (fst (snd (forEach destroy_module ms s)))"
proof (induction ms arbitrary: s)
  case Nil
  show ?case by (simp add: logged_refl)
next
  case (Cons kv ms)
  obtain k v where kv: "kv = (k, v)" by (cases kv)
  show ?case
    using logged_trans [OF destroy_module_logged [of s v] Cons.IH [of "snd (destroy_module v s)"]]
    by (simp add: kv seq_normal destroy_module_normal)
qed

text \<open>Every registered module that has a \<^verbatim>\<open>destroy\<close> method receives a call of it.\<close>

lemma forEach_destroy_all:
  "(k, Some m) \<in> set ms \<Longrightarrow> m_destroy (objs (fst s) m) \<noteq> Absent \<Longrightarrow>
     destroy_calls (fst s) m < destroy_calls (fst (snd (forEach destroy_module ms s))) m"
proof (induction ms arbitrary: s)
  case Nil
  then show ?case by simp
next
  case (Cons kv ms)
  obtain k' v where kv: "kv = (k', v)" by (cases kv)
  let ?s1 = "snd (destroy_module v s)"
  have step: "forEach destroy_module (kv # ms) s = forEach destroy_module ms ?s1"
    by (simp add: kv seq_normal destroy_module_normal)
  have l1: "logged (fst s) (fst ?s1)"
    by (rule destroy_module_logged)
  have l2: "logged (fst ?s1) (fst (snd (forEach destroy_module ms ?s1)))"
    by (rule forEach_destroy_logged)
  show ?case
  proof (cases "(k, Some m) \<in> set ms")
    case True
    have "m_destroy (objs (fst ?s1) m) \<noteq> Absent"
      using l1 Cons.prems(2) by (simp add: logged_def)
    from Cons.IH [OF True this] l1 show ?thesis
      by (auto simp: step logged_def intro: le_less_trans)
  next
    case False
    with Cons.prems(1) kv have v: "v = Some m" by auto
    have "destroy_calls (fst s) m < destroy_calls (fst ?s1) m"
      unfolding v by (rule destroy_module_grows [OF Cons.prems(2)])
    with l2 show ?thesis
      by (auto simp: step logged_def intro: less_le_trans)
  qed
qed

lemma cleanup_unfold:
  "\<exists>s2. logged (fst s) (fst s2) \<and>
     cleanup s =
       (Normal (),
        ((fst (snd (forEach destroy_module (modules (fst s2)) s2)))\<lparr>modules := []\<rparr>,
         reset (snd (snd (forEach destroy_module (modules (fst s2)) s2)))))"
proof -
  define r1 where "r1 = (case wsService (fst s) of
            None \<Rightarrow> (Normal (), s)
          | Some ws \<Rightarrow>
              if m_disconnect (objs (fst s) ws) \<noteq> Absent
              then catch_warn (invoke ws ''disconnect'' m_disconnect s)
              else (Normal (), s))"
  have n1: "fst r1 = Normal ()"
    by (simp add: r1_def catch_warn_def split: option.splits)
  have l1: "logged (fst s) (fst (snd r1))"
    by (simp add: r1_def catch_warn_def invoke_logged logged_refl split: option.splits)
  define s2 where "s2 = snd (destroy_module (dashboardController (fst (snd r1))) (snd r1))"
  have l2: "logged (fst (snd r1)) (fst s2)"
    unfolding s2_def by (rule destroy_module_logged)
  have eq: "cleanup s =
       (Normal (),
        ((fst (snd (forEach destroy_module (modules (fst s2)) s2)))\<lparr>modules := []\<rparr>,
         reset (snd (snd (forEach destroy_module (modules (fst s2)) s2)))))"
    unfolding cleanup_def r1_def [symmetric]
    by (simp add: seq_normal n1 destroy_module_normal forEach_destroy_normal s2_def)
  show ?thesis
    by (intro exI [of _ s2] conjI) (rule logged_trans [OF l1 l2] eq)+
qed

text \<open>
  Claim C9. \<open>cleanup\<close> called twice in a row throws nothing and leaves the registry of
  modules empty after each call, whatever the \<^verbatim>\<open>destroy\<close> methods of the modules do;
  and in the first call every registered module that has a \<^verbatim>\<open>destroy\<close> method
  receives a call of it, also when the \<^verbatim>\<open>destroy\<close> of another module throws.
\<close>

theorem cleanup_twice:
  "case cleanup s of
     (c1, s1) \<Rightarrow>
       (case cleanup s1 of
          (c2, s2) \<Rightarrow>
            c1 = Normal () \<and> modules (fst s1) = [] \<and>
            c2 = Normal () \<and> modules (fst s2) = [] \<and>
            (\<forall>(k, v) \<in> set (modules (fst s)).
               \<forall>m. v = Some m \<and> m_destroy (objs (fst s) m) \<noteq> Absent \<longrightarrow>
                 destroy_calls (fst s) m < destroy_calls (fst s1) m))"
proof -
  obtain t2 where l02: "logged (fst s) (fst t2)"
    and c: "cleanup s =
       (Normal (),
        ((fst (snd (forEach destroy_module (modules (fst t2)) t2)))\<lparr>modules := []\<rparr>,
         reset (snd (snd (forEach destroy_module (modules (fst t2)) t2)))))"
    using cleanup_unfold [of s] by blast
  have all: "destroy_calls (fst s) m < destroy_calls (fst (snd (cleanup s))) m"
    if "(k, Some m) \<in> set (modules (fst s))" "m_destroy (objs (fst s) m) \<noteq> Absent" for k m
  proof -
    from that l02 have "(k, Some m) \<in> set (modules (fst t2))" "m_destroy (objs (fst t2) m) \<noteq> Absent"
      by (simp_all add: logged_def)
    from forEach_destroy_all [OF this] l02 show ?thesis
      by (auto simp: c destroy_calls_def logged_def intro: le_less_trans)
  qed
  obtain c1 s1 where 1: "cleanup s = (c1, s1)"
    by (cases "cleanup s")
  obtain u2 where c2: "cleanup s1 =
       (Normal (),
        ((fst (snd (forEach destroy_module (modules (fst u2)) u2)))\<lparr>modules := []\<rparr>,
         reset (snd (snd (forEach destroy_module (modules (fst u2)) u2)))))"
    using cleanup_unfold [of s1] by blast
  show ?thesis
    using all 1 c c2 by (auto simp: 1)
qed

theorem cleanup_twice_witness:
  "(''alerts'', Some 2) \<in> set (modules example_app) \<and>
   m_destroy (objs example_app 2) = Throws \<and>
   (''dashboard'', Some 1) \<in> set (modules example_app) \<and>
   m_destroy (objs example_app 1) = Returns () \<and>
   fst (cleanup (example_app, example_browser)) = Normal () \<and>
   modules (fst (snd (cleanup (example_app, example_browser)))) = [] \<and>
   destroy_calls example_app 2
     < destroy_calls (fst (snd (cleanup (example_app, example_browser)))) 2 \<and>
   destroy_calls example_app 1
     < destroy_calls (fst (snd (cleanup (example_app, example_browser)))) 1 \<and>
   fst (cleanup (snd (cleanup (example_app, example_browser)))) = Normal () \<and>
   modules (fst (snd (cleanup (snd (cleanup (example_app, example_browser)))))) = []"
  using cleanup_twice [of "(example_app, example_browser)"]
  by (auto simp: example_app_def example_objs_def no_methods_def split: prod.splits)

end
